theory Spec2Isabelle
  imports Complex_Main "HOL-Library.Sublist"
begin

section \<open>Values\<close>

text \<open>
  The program is \<^verbatim>\<open>memorise_api_demo.py\<close>: a Gradio front end that posts the
  content of a text box to three HTTP services and shows the parsed JSON reply.

  A Python \<^verbatim>\<open>str\<close> is represented by its UTF-8 encoding, a \<open>string\<close> (a list of
  bytes); a \<^verbatim>\<open>str\<close> that holds a lone surrogate has none and is left out. Equality and
  \<^verbatim>\<open>startswith\<close> of two \<^verbatim>\<open>str\<close> values are equality and \<open>prefix\<close> of their
  encodings.

  \<open>json\<close> is what \<^verbatim>\<open>json.loads\<close> returns. A \<^verbatim>\<open>dict\<close> is an association list in
  insertion order; \<^verbatim>\<open>json.loads\<close> builds it with distinct keys. The program never
  computes with a number, so a float is carried by its value.
\<close>

datatype json =
    JNull
  | JBool bool
  | JInt int
  | JFloat rat
  | JStr string
  | JArr "json list"
  | JObj "(string \<times> json) list"

text \<open>The exceptions the program can raise, by their Python class.\<close>

datatype error =
    ConnectionError
  | JSONDecodeError
  | KeyError string
  | IndexError
  | AttributeError
  | TypeError
  | OSError
  | UnicodeDecodeError
  | FrameShapeNotModelled

section \<open>The network and the process state\<close>

datatype http_method = GET | POST

record http_request =
  meth :: http_method
  url :: string
  payload :: "json option"

text \<open>
  A service is outside the program. \<open>network\<close> gives, for the requests made so far and
  the request made now, what \<^verbatim>\<open>json.loads(requests.post(...).text)\<close> evaluates to: the
  parsed body, or the exception of \<^verbatim>\<open>requests\<close> or of \<^verbatim>\<open>json.loads\<close>.

  \<open>detector\<close> is \<^verbatim>\<open>langdetector.detect_language_of\<close> followed, where a language is
  found, by \<^verbatim>\<open>.iso_code_639_3.name\<close>: the upper-case ASCII name of the ISO 639-3
  member, or \<open>None\<close>.

  \<open>filesystem\<close> gives the bytes of the file at a path, or \<open>None\<close> where \<^verbatim>\<open>open\<close>
  fails.
\<close>

type_synonym network = "http_request list \<Rightarrow> http_request \<Rightarrow> error + json"

type_synonym detector = "string \<Rightarrow> string option"

type_synonym filesystem = "string \<Rightarrow> string option"

text \<open>
  \<^verbatim>\<open>pd.DataFrame\<close>: the column labels in order and the rows, each row holding one cell
  per column. A cell is \<open>None\<close> where the record had no such key (pandas shows NaN).
  The dtype conversions pandas applies to a column are not modelled.
\<close>

record dataframe =
  columns :: "string list"
  rows :: "json option list list"

text \<open>What \<^verbatim>\<open>request\<close> returns: a value taken from the reply, or a data frame.\<close>

datatype display = PyValue json | Frame dataframe

text \<open>
  The state of the process: the requests made so far (oldest first), the module global
  \<^verbatim>\<open>LANG_2_FLORES\<close>, and the values of the three components the handlers write to.
\<close>

record state =
  sent :: "http_request list"
  lang_table :: "(string \<times> string) list"
  text_box :: string
  table_output :: display
  translate_output :: display

definition LANG_2_FLORES :: "(string \<times> string) list" where
  "LANG_2_FLORES =
    [(''Czech'', ''ces_Latn''),
     (''Danish'', ''dan_Latn''),
     (''Dutch'', ''nld_Latn''),
     (''English'', ''eng_Latn''),
     (''German'', ''deu_Latn''),
     (''Hebrew'', ''heb_Hebr''),
     (''Hungarian'', ''hun_Latn''),
     (''Polish'', ''pol_Latn''),
     (''Ukrainian'', ''ukr_Cyrl'')]"

definition SEMTAG :: string where
  "SEMTAG = ''https://semtag-api.dev.memorise.sdu.dk/semtag''"

definition NER :: string where
  "NER = ''https://semtag-api.dev.memorise.sdu.dk/ner''"

definition MT :: string where
  "MT = ''https://quest.ms.mff.cuni.cz/dimbu''"

section \<open>Python operations the program uses\<close>

text \<open>\<^verbatim>\<open>json.loads(requests.<method>(...).text)\<close>: the request is recorded, the reply parsed.\<close>

definition http_json :: "network \<Rightarrow> http_request \<Rightarrow> state \<Rightarrow> (error + json) \<times> state" where
  "http_json net rq st = (net (sent st) rq, st\<lparr>sent := sent st @ [rq]\<rparr>)"

text \<open>\<^verbatim>\<open>obj[key]\<close> with a \<^verbatim>\<open>str\<close> key: only a \<^verbatim>\<open>dict\<close> accepts it.\<close>

fun py_getitem :: "json \<Rightarrow> string \<Rightarrow> error + json" where
  "py_getitem (JObj kvs) k = (case map_of kvs k of None \<Rightarrow> Inl (KeyError k) | Some v \<Rightarrow> Inr v)"
| "py_getitem _ k = Inl TypeError"

text \<open>
  The code points of a \<^verbatim>\<open>str\<close>, each as a one-character \<^verbatim>\<open>str\<close>: a byte that is not a
  continuation byte (\<open>0x80\<close> to \<open>0xBF\<close>) starts a new one.
\<close>

definition continuation :: "nat \<Rightarrow> bool" where
  "continuation b = (128 \<le> b \<and> b \<le> 191)"

function code_points :: "string \<Rightarrow> string list" where
  "code_points [] = []"
| "code_points (c # cs) =
     (c # takeWhile (\<lambda>d. continuation (of_char d)) cs)
       # code_points (dropWhile (\<lambda>d. continuation (of_char d)) cs)"
  by pat_completeness auto
termination
  by (relation "measure length") (auto simp: length_dropWhile_le less_Suc_eq_le)

text \<open>\<^verbatim>\<open>for l in obj\<close>: a list gives its elements, a \<^verbatim>\<open>str\<close> its characters, a \<^verbatim>\<open>dict\<close> its keys.\<close>

fun py_iter :: "json \<Rightarrow> error + json list" where
  "py_iter (JArr xs) = Inr xs"
| "py_iter (JStr s) = Inr (map JStr (code_points s))"
| "py_iter (JObj kvs) = Inr (map (\<lambda>kv. JStr (fst kv)) kvs)"
| "py_iter _ = Inl TypeError"

text \<open>\<^verbatim>\<open>str.lower\<close> on the ASCII names of the detector.\<close>

definition lower_char :: "char \<Rightarrow> char" where
  "lower_char c =
     (let n = (of_char c :: nat) in if 65 \<le> n \<and> n \<le> 90 then char_of (n + 32) else c)"

definition lower :: "string \<Rightarrow> string" where
  "lower s = map lower_char s"

text \<open>
  \<^verbatim>\<open>[l for l in all_langs if l.startswith(lang)]\<close> over the elements: an element that is
  not a \<^verbatim>\<open>str\<close> has no \<^verbatim>\<open>startswith\<close>.
\<close>

fun matching_langs :: "json list \<Rightarrow> string \<Rightarrow> error + json list" where
  "matching_langs [] lang = Inr []"
| "matching_langs (JStr l # ls) lang =
     (case matching_langs ls lang of
        Inl e \<Rightarrow> Inl e
      | Inr ms \<Rightarrow> Inr (if prefix lang l then JStr l # ms else ms))"
| "matching_langs (_ # ls) lang = Inl AttributeError"

section \<open>pandas\<close>

text \<open>The keys of the records in order of first appearance: the column labels.\<close>

fun unique :: "string list \<Rightarrow> string list" where
  "unique [] = []"
| "unique (k # ks) = k # unique (filter (\<lambda>x. x \<noteq> k) ks)"

fun dict_items :: "json \<Rightarrow> (string \<times> json) list option" where
  "dict_items (JObj kvs) = Some kvs"
| "dict_items _ = None"

fun all_dicts :: "json list \<Rightarrow> (string \<times> json) list list option" where
  "all_dicts [] = Some []"
| "all_dicts (r # rs) =
     (case dict_items r of
        None \<Rightarrow> None
      | Some kvs \<Rightarrow> (case all_dicts rs of None \<Rightarrow> None | Some ds \<Rightarrow> Some (kvs # ds)))"

text \<open>
  \<^verbatim>\<open>pd.DataFrame.from_records(data)\<close> for a list of dicts: one column per key, in order
  of first appearance, and one row per dict. pandas turns the dicts into one array per
  column and, no index being given, takes the row index from those arrays: where no dict
  has a key there is no array, the index is empty, and the frame has no row, however many
  dicts the list holds. What pandas does with any other shape of \<open>data\<close> (a list of
  lists, a dict, a scalar) is not modelled: \<open>FrameShapeNotModelled\<close>.
\<close>

definition from_records :: "json \<Rightarrow> error + dataframe" where
  "from_records data =
     (case data of
        JArr rs \<Rightarrow>
          (case all_dicts rs of
             None \<Rightarrow> Inl FrameShapeNotModelled
           | Some ds \<Rightarrow>
               (let cols = unique (concat (map (map fst) ds)) in
                Inr \<lparr>columns = cols,
                     rows = (if cols = [] then [] else map (\<lambda>d. map (map_of d) cols) ds)\<rparr>))
      | _ \<Rightarrow> Inl FrameShapeNotModelled)"

text \<open>\<^verbatim>\<open>df.drop(columns=labels)\<close>: a label that is no column is a \<^verbatim>\<open>KeyError\<close>.\<close>

definition keep_cells :: "string list \<Rightarrow> string list \<Rightarrow> json option list \<Rightarrow> json option list" where
  "keep_cells cols labels r = map snd (filter (\<lambda>cv. fst cv \<notin> set labels) (zip cols r))"

definition drop_columns :: "dataframe \<Rightarrow> string list \<Rightarrow> error + dataframe" where
  "drop_columns df labels =
     (case filter (\<lambda>l. l \<notin> set (columns df)) labels of
        l # _ \<Rightarrow> Inl (KeyError l)
      | [] \<Rightarrow>
          Inr \<lparr>columns = filter (\<lambda>c. c \<notin> set labels) (columns df),
               rows = map (keep_cells (columns df) labels) (rows df)\<rparr>)"

section \<open>The service client\<close>

definition classify :: "network \<Rightarrow> string \<Rightarrow> state \<Rightarrow> (error + json) \<times> state" where
  "classify net text st =
     http_json net
       \<lparr>meth = POST, url = SEMTAG @ ''/classify'', payload = Some (JObj [(''text'', JStr text)])\<rparr> st"

definition ner :: "network \<Rightarrow> string \<Rightarrow> state \<Rightarrow> (error + json) \<times> state" where
  "ner net text st =
     http_json net
       \<lparr>meth = POST, url = NER @ ''/ner'', payload = Some (JObj [(''text'', JStr text)])\<rparr> st"

text \<open>The GET that fetches the supported languages.\<close>

definition languages_request :: http_request where
  "languages_request = \<lparr>meth = GET, url = MT @ ''/supported_languages'', payload = None\<rparr>"

definition get_supported_languages :: "network \<Rightarrow> state \<Rightarrow> (error + json) \<times> state" where
  "get_supported_languages net st = http_json net languages_request st"

text \<open>The POST to the translation endpoint, with its JSON body.\<close>

definition translate_request :: "string \<Rightarrow> json \<Rightarrow> string \<Rightarrow> http_request" where
  "translate_request text src_lang tgt =
     \<lparr>meth = POST, url = MT @ ''/translate'',
      payload = Some (JObj [(''text'', JStr text), (''src_lang'', src_lang), (''tgt_lang'', JStr tgt)])\<rparr>"

definition translate ::
  "network \<Rightarrow> detector \<Rightarrow> string \<Rightarrow> string \<Rightarrow> state \<Rightarrow> (error + json) \<times> state" where
  "translate net det text tgt_lang st =
     (case get_supported_languages net st of
        (Inl e, st1) \<Rightarrow> (Inl e, st1)
      | (Inr reply, st1) \<Rightarrow>
          (case py_getitem reply ''supported_languages'' of
             Inl e \<Rightarrow> (Inl e, st1)
           | Inr all_langs \<Rightarrow>
               (case det text of
                  None \<Rightarrow> (Inr (JObj [(''text'', JStr '''')]), st1)
                | Some code \<Rightarrow>
                    (case py_iter all_langs of
                       Inl e \<Rightarrow> (Inl e, st1)
                     | Inr ls \<Rightarrow>
                         (case matching_langs ls (lower code) of
                            Inl e \<Rightarrow> (Inl e, st1)
                          | Inr [] \<Rightarrow> (Inl IndexError, st1)
                          | Inr (src_lang # _) \<Rightarrow>
                              (case map_of (lang_table st1) tgt_lang of
                                 None \<Rightarrow> (Inl (KeyError tgt_lang), st1)
                               | Some tgt \<Rightarrow>
                                   http_json net (translate_request text src_lang tgt) st1))))))"

section \<open>The response normalizer\<close>

text \<open>
  \<open>fn\<close> is the client call with its keyword arguments applied. A reply that is not a
  \<^verbatim>\<open>dict\<close> has no \<^verbatim>\<open>keys\<close>.
\<close>

definition request ::
  "(state \<Rightarrow> (error + json) \<times> state) \<Rightarrow> state \<Rightarrow> (error + display) \<times> state" where
  "request fn st =
     (case fn st of
        (Inl e, st1) \<Rightarrow> (Inl e, st1)
      | (Inr response, st1) \<Rightarrow>
          (case dict_items response of
             None \<Rightarrow> (Inl AttributeError, st1)
           | Some kvs \<Rightarrow>
               (case map_of kvs ''text'' of
                  Some v \<Rightarrow> (Inr (PyValue v), st1)
                | None \<Rightarrow>
                    (case map_of kvs ''detail'' of
                       Some v \<Rightarrow> (Inr (PyValue v), st1)
                     | None \<Rightarrow>
                         (case map_of kvs ''results'' of
                            None \<Rightarrow> (Inl (KeyError ''results''), st1)
                          | Some rs \<Rightarrow>
                              (case from_records rs of
                                 Inl e \<Rightarrow> (Inl e, st1)
                               | Inr results \<Rightarrow>
                                   (if ''score'' \<in> set (columns results)
                                    then (case drop_columns results [''score''] of
                                            Inl e \<Rightarrow> (Inl e, st1)
                                          | Inr df \<Rightarrow> (Inr (Frame df), st1))
                                    else (Inr (Frame results), st1))))))))"

section \<open>Reading an uploaded file\<close>

text \<open>
  \<^verbatim>\<open>open(file, encoding="utf8")\<close> decodes strictly: the bytes must be well-formed UTF-8
  (no overlong form, no surrogate, nothing above U+10FFFF).
\<close>

fun well_formed_utf8 :: "nat list \<Rightarrow> bool" where
  "well_formed_utf8 [] = True"
| "well_formed_utf8 (b # bs) =
     (if b \<le> 127 then well_formed_utf8 bs
      else if 194 \<le> b \<and> b \<le> 223 then
        (case bs of
           c1 # r \<Rightarrow> continuation c1 \<and> well_formed_utf8 r
         | _ \<Rightarrow> False)
      else if 224 \<le> b \<and> b \<le> 239 then
        (case bs of
           c1 # c2 # r \<Rightarrow>
             (if b = 224 then 160 \<le> c1 \<and> c1 \<le> 191
              else if b = 237 then 128 \<le> c1 \<and> c1 \<le> 159
              else continuation c1)
             \<and> continuation c2 \<and> well_formed_utf8 r
         | _ \<Rightarrow> False)
      else if 240 \<le> b \<and> b \<le> 244 then
        (case bs of
           c1 # c2 # c3 # r \<Rightarrow>
             (if b = 240 then 144 \<le> c1 \<and> c1 \<le> 191
              else if b = 244 then 128 \<le> c1 \<and> c1 \<le> 143
              else continuation c1)
             \<and> continuation c2 \<and> continuation c3 \<and> well_formed_utf8 r
         | _ \<Rightarrow> False)
      else False)"

text \<open>
  Text mode with the default \<^verbatim>\<open>newline=None\<close>: \<^verbatim>\<open>read\<close> gives every line ending
  (carriage return and line feed, or a carriage return alone) as one line feed.
\<close>

definition CR :: char where
  "CR = CHR 0x0D"

definition LF :: char where
  "LF = CHR 0x0A"

fun universal_newlines :: "string \<Rightarrow> string" where
  "universal_newlines [] = []"
| "universal_newlines [c] = (if c = CR then [LF] else [c])"
| "universal_newlines (c # d # cs) =
     (if c = CR \<and> d = LF then universal_newlines (d # cs)
      else if c = CR then LF # universal_newlines (d # cs)
      else c # universal_newlines (d # cs))"

definition upload_file :: "filesystem \<Rightarrow> string \<Rightarrow> error + string" where
  "upload_file fs file =
     (case fs file of
        None \<Rightarrow> Inl OSError
      | Some bytes \<Rightarrow>
          (if well_formed_utf8 (map of_char bytes) then Inr (universal_newlines bytes)
           else Inl UnicodeDecodeError))"

section \<open>The event handlers\<close>

text \<open>
  Gradio sets the output component to what the handler returns; when the handler raises,
  the component keeps its value.
\<close>

definition on_upload :: "filesystem \<Rightarrow> string \<Rightarrow> state \<Rightarrow> state" where
  "on_upload fs file st =
     (case upload_file fs file of Inl e \<Rightarrow> st | Inr t \<Rightarrow> st\<lparr>text_box := t\<rparr>)"

definition on_classify :: "network \<Rightarrow> state \<Rightarrow> state" where
  "on_classify net st =
     (case request (classify net (text_box st)) st of
        (Inl e, st1) \<Rightarrow> st1
      | (Inr d, st1) \<Rightarrow> st1\<lparr>table_output := d\<rparr>)"

definition on_ner :: "network \<Rightarrow> state \<Rightarrow> state" where
  "on_ner net st =
     (case request (ner net (text_box st)) st of
        (Inl e, st1) \<Rightarrow> st1
      | (Inr d, st1) \<Rightarrow> st1\<lparr>table_output := d\<rparr>)"

definition on_translate :: "network \<Rightarrow> detector \<Rightarrow> string \<Rightarrow> state \<Rightarrow> state" where
  "on_translate net det tgt_lang st =
     (case request (translate net det (text_box st) tgt_lang) st of
        (Inl e, st1) \<Rightarrow> st1
      | (Inr d, st1) \<Rightarrow> st1\<lparr>translate_output := d\<rparr>)"

text \<open>
  The process after start-up: nothing sent, the table as the module defines it, the
  components empty. A state is reachable when a sequence of events leads to it; the
  services, the detector and the files may be different at every event.
\<close>

definition startup :: state where
  "startup =
     \<lparr>sent = [], lang_table = LANG_2_FLORES, text_box = [],
      table_output = Frame \<lparr>columns = [], rows = []\<rparr>, translate_output = PyValue JNull\<rparr>"

inductive reachable :: "state \<Rightarrow> bool" where
  start: "reachable startup"
| typed: "reachable st \<Longrightarrow> reachable (st\<lparr>text_box := t\<rparr>)"
| upload: "reachable st \<Longrightarrow> reachable (on_upload fs file st)"
| classify_click: "reachable st \<Longrightarrow> reachable (on_classify net st)"
| ner_click: "reachable st \<Longrightarrow> reachable (on_ner net st)"
| translate_click: "reachable st \<Longrightarrow> reachable (on_translate net det tgt_lang st)"

section \<open>Example environments\<close>

text \<open>
  Concrete services, detectors and files, for evaluating the program: a translation
  service that supports three codes, one that supports no English code, an unreachable
  one; a detector that always finds English and one that finds nothing; a file system in
  which every path holds the same bytes.
\<close>

definition demo_service :: network where
  "demo_service history rq =
     (if meth rq = GET
      then Inr (JObj [(''supported_languages'',
                       JArr [JStr ''deu_Latn'', JStr ''eng_Cyrl'', JStr ''eng_Latn''])])
      else Inr (JObj [(''text'', JStr ''Hallo Welt'')]))"

definition no_english_service :: network where
  "no_english_service history rq =
     (if meth rq = GET
      then Inr (JObj [(''supported_languages'', JArr [JStr ''deu_Latn'', JStr ''fra_Latn''])])
      else Inr (JObj [(''text'', JStr ''Hallo Welt'')]))"


definition english :: detector where
  "english t = Some ''ENG''"


definition one_file :: "string \<Rightarrow> filesystem" where
  "one_file bytes path = Some bytes"

section \<open>Lemmas\<close>

subsection \<open>The normalizer\<close>

lemma request_state: "snd (request fn st) = snd (fn st)"
  by (cases "fn st")
     (auto simp: request_def split: sum.splits option.splits)

lemma request_depends_on_reply:
  assumes "fst (fn1 s1) = fst (fn2 s2)"
  shows "fst (request fn1 s1) = fst (request fn2 s2)"
proof -
  obtain r t1 where a: "fn1 s1 = (r, t1)" by (cases "fn1 s1")
  obtain t2 where b: "fn2 s2 = (r, t2)" using assms a by (cases "fn2 s2") simp
  show ?thesis
    by (simp add: request_def a b split: sum.splits option.splits)
qed

subsection \<open>Data frames\<close>







subsection \<open>Translation\<close>

lemma matching_langs_strings:
  "matching_langs (map JStr codes) lang = Inr (map JStr (filter (prefix lang) codes))"
  by (induction codes) simp_all

lemma filter_first:
  assumes "\<forall>x\<in>set pre. \<not> P x" and "P s"
  shows "filter P (pre @ s # post) = s # filter P post"
  using assms by (induction pre) simp_all

lemma translate_fetch_failed:
  assumes "net (sent st) languages_request = Inl e"
  shows "translate net det text tgt_lang st =
           (Inl e, st\<lparr>sent := sent st @ [languages_request]\<rparr>)"
  using assms by (simp add: translate_def get_supported_languages_def http_json_def)

lemma translate_fetched:
  assumes "net (sent st) languages_request = Inr reply"
  shows "translate net det text tgt_lang st =
     (case py_getitem reply ''supported_languages'' of
        Inl e \<Rightarrow> (Inl e, st\<lparr>sent := sent st @ [languages_request]\<rparr>)
      | Inr all_langs \<Rightarrow>
          (case det text of
             None \<Rightarrow>
               (Inr (JObj [(''text'', JStr '''')]), st\<lparr>sent := sent st @ [languages_request]\<rparr>)
           | Some code \<Rightarrow>
               (case py_iter all_langs of
                  Inl e \<Rightarrow> (Inl e, st\<lparr>sent := sent st @ [languages_request]\<rparr>)
                | Inr ls \<Rightarrow>
                    (case matching_langs ls (lower code) of
                       Inl e \<Rightarrow> (Inl e, st\<lparr>sent := sent st @ [languages_request]\<rparr>)
                     | Inr [] \<Rightarrow> (Inl IndexError, st\<lparr>sent := sent st @ [languages_request]\<rparr>)
                     | Inr (src_lang # _) \<Rightarrow>
                         (case map_of (lang_table st) tgt_lang of
                            None \<Rightarrow>
                              (Inl (KeyError tgt_lang),
                               st\<lparr>sent := sent st @ [languages_request]\<rparr>)
                          | Some tgt \<Rightarrow>
                              http_json net (translate_request text src_lang tgt)
                                (st\<lparr>sent := sent st @ [languages_request]\<rparr>))))))"
  using assms
  by (simp add: translate_def get_supported_languages_def http_json_def
           split: sum.splits option.splits list.splits)

lemma translate_listed:
  assumes "net (sent st) languages_request = Inr (JObj reply)"
    and "map_of reply ''supported_languages'' = Some (JArr (map JStr codes))"
    and "det text = Some code"
  shows "translate net det text tgt_lang st =
     (case filter (prefix (lower code)) codes of
        [] \<Rightarrow> (Inl IndexError, st\<lparr>sent := sent st @ [languages_request]\<rparr>)
      | s # _ \<Rightarrow>
          (case map_of (lang_table st) tgt_lang of
             None \<Rightarrow> (Inl (KeyError tgt_lang), st\<lparr>sent := sent st @ [languages_request]\<rparr>)
           | Some tgt \<Rightarrow>
               http_json net (translate_request text (JStr s) tgt)
                 (st\<lparr>sent := sent st @ [languages_request]\<rparr>)))"
  using assms
  by (simp add: translate_fetched matching_langs_strings split: list.splits)

lemma translate_selected:
  assumes "net (sent st) languages_request = Inr reply"
    and "py_getitem reply ''supported_languages'' = Inr all_langs"
    and "det text = Some code"
    and "py_iter all_langs = Inr ls"
    and "matching_langs ls (lower code) = Inr (src # ms)"
  shows "translate net det text tgt_lang st =
           (case map_of (lang_table st) tgt_lang of
              None \<Rightarrow> (Inl (KeyError tgt_lang), st\<lparr>sent := sent st @ [languages_request]\<rparr>)
            | Some tgt \<Rightarrow>
                http_json net (translate_request text src tgt)
                  (st\<lparr>sent := sent st @ [languages_request]\<rparr>))"
  using assms by (simp add: translate_fetched)

lemma translate_sent:
  "sent (snd (translate net det text tgt_lang st)) = sent st @ [languages_request]
   \<or> (\<exists>src tgt. map_of (lang_table st) tgt_lang = Some tgt \<and>
         sent (snd (translate net det text tgt_lang st)) =
           sent st @ [languages_request, translate_request text src tgt])"
proof (cases "net (sent st) languages_request")
  case (Inl e)
  then show ?thesis by (simp add: translate_fetch_failed)
next
  case (Inr reply)
  then show ?thesis
    by (auto simp: translate_fetched http_json_def
             split: sum.splits option.splits list.splits)
qed

lemma lower_ENG: "lower ''ENG'' = ''eng''"
  by code_simp

subsection \<open>The language table is never written\<close>

lemma http_json_table: "lang_table (snd (http_json net rq st)) = lang_table st"
  by (simp add: http_json_def)

lemma translate_table: "lang_table (snd (translate net det text tgt_lang st)) = lang_table st"
  by (simp add: translate_def get_supported_languages_def http_json_def
           split: sum.splits option.splits list.splits prod.splits)

lemma on_upload_table: "lang_table (on_upload fs file st) = lang_table st"
  by (simp add: on_upload_def split: sum.splits)

lemma on_classify_table: "lang_table (on_classify net st) = lang_table st"
proof -
  have "lang_table (snd (request (classify net (text_box st)) st)) = lang_table st"
    by (simp add: request_state classify_def http_json_table)
  then show ?thesis
    by (cases "request (classify net (text_box st)) st")
       (auto simp: on_classify_def split: sum.splits)
qed

lemma on_ner_table: "lang_table (on_ner net st) = lang_table st"
proof -
  have "lang_table (snd (request (ner net (text_box st)) st)) = lang_table st"
    by (simp add: request_state ner_def http_json_table)
  then show ?thesis
    by (cases "request (ner net (text_box st)) st")
       (auto simp: on_ner_def split: sum.splits)
qed

lemma on_translate_table: "lang_table (on_translate net det tgt_lang st) = lang_table st"
proof -
  have "lang_table (snd (request (translate net det (text_box st) tgt_lang) st)) = lang_table st"
    by (simp add: request_state translate_table)
  then show ?thesis
    by (cases "request (translate net det (text_box st) tgt_lang) st")
       (auto simp: on_translate_def split: sum.splits)
qed

lemma reachable_table: "reachable st \<Longrightarrow> lang_table st = LANG_2_FLORES"
proof (induction rule: reachable.induct)
  case start
  show ?case by (simp add: startup_def)
next
  case (typed st t)
  then show ?case by simp
next
  case (upload st fs path)
  then show ?case by (simp add: on_upload_table)
next
  case (classify_click st net)
  then show ?case by (simp add: on_classify_table)
next
  case (ner_click st net)
  then show ?case by (simp add: on_ner_table)
next
  case (translate_click st net det tgt_lang)
  then show ?case by (simp add: on_translate_table)
qed

subsection \<open>Reading text\<close>

lemma universal_newlines_plain: "CR \<notin> set bytes \<Longrightarrow> universal_newlines bytes = bytes"
  by (induction bytes rule: universal_newlines.induct) auto

lemma CR_not_LF: "CR \<noteq> LF" "LF \<noteq> CR"
  by (simp_all add: CR_def LF_def)

lemma universal_newlines_no_CR: "CR \<notin> set (universal_newlines bytes)"
  by (induction bytes rule: universal_newlines.induct) (auto simp: CR_not_LF)

lemma universal_newlines_others:
  "filter (\<lambda>c. c \<noteq> LF) (universal_newlines bytes) = filter (\<lambda>c. c \<noteq> CR \<and> c \<noteq> LF) bytes"
  by (induction bytes rule: universal_newlines.induct) (auto simp: CR_not_LF)

lemma universal_newlines_CRLF:
  "universal_newlines (xs @ CR # LF # ys) = universal_newlines xs @ LF # universal_newlines ys"
proof (induction xs rule: universal_newlines.induct)
  case 1
  show ?case by (cases ys) (simp_all add: CR_not_LF)
next
  case (2 c)
  show ?case by (cases ys) (simp_all add: CR_not_LF)
next
  case (3 c d cs)
  then show ?case by (simp add: CR_not_LF)
qed

lemma universal_newlines_lone_CR:
  "(\<forall>zs. ys \<noteq> LF # zs) \<Longrightarrow>
   universal_newlines (xs @ CR # ys) = universal_newlines xs @ LF # universal_newlines ys"
proof (induction xs rule: universal_newlines.induct)
  case 1
  then show ?case by (cases ys) (simp_all add: CR_not_LF)
next
  case (2 c)
  then show ?case by (cases ys) (simp_all add: CR_not_LF)
next
  case (3 c d cs)
  then show ?case by (simp add: CR_not_LF)
qed


section \<open>Claims about the response normalizer\<close>

text \<open>
  C1. When the client call returns a dict with a \<^verbatim>\<open>text\<close> key, \<^verbatim>\<open>request\<close> returns the
  value stored under that key, unchanged, whatever the other keys of the dict are (so a
  \<^verbatim>\<open>detail\<close> or \<^verbatim>\<open>results\<close> key beside it is ignored); a string comes back as that string.
\<close>

theorem request_text:
  assumes "fn st = (Inr (JObj kvs), st1)"
    and "map_of kvs ''text'' = Some v"
  shows "request fn st = (Inr (PyValue v), st1)"
  using assms by (simp add: request_def)

text \<open>A reply that holds all three keys, \<^verbatim>\<open>text\<close> not first.\<close>

theorem request_text_witness:
  "request (Pair (Inr (JObj [(''detail'', JStr ''d''), (''text'', JStr ''Hallo''),
                             (''results'', JArr [])]))) startup
   = (Inr (PyValue (JStr ''Hallo'')), startup)"
  by (rule request_text [of _ _ "[(''detail'', JStr ''d''), (''text'', JStr ''Hallo''),
                                  (''results'', JArr [])]"])
     simp_all




text \<open>
  C5. When the client call returns a dict with a \<^verbatim>\<open>detail\<close> key and no \<^verbatim>\<open>text\<close> key,
  \<^verbatim>\<open>request\<close> returns the value of \<^verbatim>\<open>detail\<close>, unchanged (a string comes back as that
  string), in the shape in which it returns a translation: the result is the one the
  reply \<^verbatim>\<open>{"text": v}\<close> gives.
\<close>

theorem request_detail:
  assumes "fn st = (Inr (JObj kvs), st1)"
    and "''text'' \<notin> fst ` set kvs"
    and "map_of kvs ''detail'' = Some v"
  shows "request fn st = (Inr (PyValue v), st1)
         \<and> fst (request fn st) = fst (request (Pair (Inr (JObj [(''text'', v)]))) st)"
proof -
  have "map_of kvs ''text'' = None"
    using assms(2) by (simp add: map_of_eq_None_iff)
  then show ?thesis
    using assms(1,3) by (simp add: request_def)
qed

theorem request_detail_witness:
  "request (Pair (Inr (JObj [(''detail'', JStr ''Not Found''), (''results'', JArr [])]))) startup
     = (Inr (PyValue (JStr ''Not Found'')), startup)
   \<and> fst (request (Pair (Inr (JObj [(''detail'', JStr ''Not Found''), (''results'', JArr [])])))
            startup)
     = fst (request (Pair (Inr (JObj [(''text'', JStr ''Not Found'')]))) startup)"
  by (rule request_detail [of _ _ "[(''detail'', JStr ''Not Found''), (''results'', JArr [])]"])
     simp_all

text \<open>
  C6. Normalization has no state of its own: \<^verbatim>\<open>request\<close> leaves the process in the state
  in which the client call left it, and what it returns depends on the reply alone: two
  calls whose client calls give the same reply (or raise the same exception) return the
  same result, whatever the two states and the two client functions are.
\<close>

theorem request_deterministic:
  "snd (request fn1 s1) = snd (fn1 s1)
   \<and> (fst (fn1 s1) = fst (fn2 s2) \<longrightarrow> fst (request fn1 s1) = fst (request fn2 s2))"
  by (auto simp: request_state intro: request_depends_on_reply)

text \<open>The same reply from two services, in two states.\<close>

theorem request_deterministic_witness:
  "fst (request (classify demo_service ''Hello'') startup)
   = fst (request (ner no_english_service ''Bonjour'') (startup\<lparr>text_box := ''Bonjour''\<rparr>))
   \<and> snd (request (classify demo_service ''Hello'') startup)
     = snd (classify demo_service ''Hello'' startup)"
proof -
  have "fst (classify demo_service ''Hello'' startup)
        = fst (ner no_english_service ''Bonjour'' (startup\<lparr>text_box := ''Bonjour''\<rparr>))"
    by (simp add: classify_def ner_def http_json_def demo_service_def no_english_service_def)
  then show ?thesis
    using request_deterministic [of "classify demo_service ''Hello''" startup
        "ner no_english_service ''Bonjour''" "startup\<lparr>text_box := ''Bonjour''\<rparr>"]
    by simp
qed

text \<open>
  C10. When the client call returns a dict with none of the keys \<^verbatim>\<open>text\<close>, \<^verbatim>\<open>detail\<close> and
  \<^verbatim>\<open>results\<close>, \<^verbatim>\<open>request\<close> raises the \<^verbatim>\<open>KeyError\<close> of the \<^verbatim>\<open>results\<close> lookup: it returns no
  value.
\<close>

theorem request_no_key:
  assumes "fn st = (Inr (JObj kvs), st1)"
    and "''text'' \<notin> fst ` set kvs"
    and "''detail'' \<notin> fst ` set kvs"
    and "''results'' \<notin> fst ` set kvs"
  shows "request fn st = (Inl (KeyError ''results''), st1)"
proof -
  have "map_of kvs ''text'' = None" "map_of kvs ''detail'' = None"
    "map_of kvs ''results'' = None"
    using assms(2-4) by (simp_all add: map_of_eq_None_iff)
  then show ?thesis
    using assms(1) by (simp add: request_def)
qed

theorem request_no_key_witness:
  "request (Pair (Inr (JObj [(''status'', JStr ''ok'')]))) startup
   = (Inl (KeyError ''results''), startup)"
  by (rule request_no_key [of _ _ "[(''status'', JStr ''ok'')]"]) simp_all

section \<open>Claims about translation\<close>

text \<open>
  C3. When the service lists its supported codes and the detector finds a language, the
  source code \<^verbatim>\<open>translate\<close> uses is the first listed code, in list order, that starts
  with the lower-cased ISO 639-3 name: with \<open>s\<close> that code, \<^verbatim>\<open>translate\<close> posts \<open>s\<close> as
  \<^verbatim>\<open>src_lang\<close> (or raises the \<^verbatim>\<open>KeyError\<close> of a target name that is not in the table, and
  posts nothing). In particular, for a text detected as English (\<^verbatim>\<open>ENG\<close>) and the target
  \<^verbatim>\<open>German\<close>, the POST carries the first listed code starting with \<^verbatim>\<open>eng\<close> and
  \<^verbatim>\<open>deu_Latn\<close>.
\<close>

theorem translate_source:
  assumes fetched: "net (sent st) languages_request = Inr (JObj reply)"
    and listed: "map_of reply ''supported_languages'' = Some (JArr (map JStr codes))"
    and detected: "det text = Some code"
    and first: "codes = pre @ s # post" "prefix (lower code) s"
      "\<forall>x\<in>set pre. \<not> prefix (lower code) x"
  shows "translate net det text tgt_lang st =
           (case map_of (lang_table st) tgt_lang of
              None \<Rightarrow> (Inl (KeyError tgt_lang), st\<lparr>sent := sent st @ [languages_request]\<rparr>)
            | Some tgt \<Rightarrow>
                http_json net (translate_request text (JStr s) tgt)
                  (st\<lparr>sent := sent st @ [languages_request]\<rparr>))
         \<and> (code = ''ENG'' \<and> tgt_lang = ''German'' \<and> lang_table st = LANG_2_FLORES \<longrightarrow>
              prefix ''eng'' s \<and>
              sent (snd (translate net det text tgt_lang st)) =
                sent st @ [languages_request, translate_request text (JStr s) ''deu_Latn''])"
proof -
  have sel: "filter (prefix (lower code)) codes = s # filter (prefix (lower code)) post"
    using first by (simp add: filter_first)
  have main: "translate net det text tgt_lang st =
           (case map_of (lang_table st) tgt_lang of
              None \<Rightarrow> (Inl (KeyError tgt_lang), st\<lparr>sent := sent st @ [languages_request]\<rparr>)
            | Some tgt \<Rightarrow>
                http_json net (translate_request text (JStr s) tgt)
                  (st\<lparr>sent := sent st @ [languages_request]\<rparr>))"
    using translate_listed [of net st reply codes det "text" code tgt_lang]
      fetched listed detected sel
    by simp
  have deu: "map_of LANG_2_FLORES ''German'' = Some ''deu_Latn''"
    by (simp add: LANG_2_FLORES_def)
  have "prefix ''eng'' s \<and>
        sent (snd (translate net det text tgt_lang st)) =
          sent st @ [languages_request, translate_request text (JStr s) ''deu_Latn'']"
    if "code = ''ENG''" "tgt_lang = ''German''" "lang_table st = LANG_2_FLORES"
    using that main first(2) lower_ENG deu by (simp add: http_json_def)
  with main show ?thesis by blast
qed

text \<open>
  The service lists \<^verbatim>\<open>deu_Latn\<close>, \<^verbatim>\<open>eng_Cyrl\<close>, \<^verbatim>\<open>eng_Latn\<close>: an English text is sent with
  \<^verbatim>\<open>eng_Cyrl\<close>, the first of the two English codes.
\<close>

theorem translate_source_witness:
  "translate demo_service english ''Hello world'' ''German'' startup =
     (Inr (JObj [(''text'', JStr ''Hallo Welt'')]),
      startup\<lparr>sent := [languages_request,
                        translate_request ''Hello world'' (JStr ''eng_Cyrl'') ''deu_Latn'']\<rparr>)"
proof -
  have h1: "demo_service (sent startup) languages_request =
              Inr (JObj [(''supported_languages'',
                          JArr [JStr ''deu_Latn'', JStr ''eng_Cyrl'', JStr ''eng_Latn''])])"
    by (simp add: demo_service_def languages_request_def)
  have h2: "map_of [(''supported_languages'',
                     JArr [JStr ''deu_Latn'', JStr ''eng_Cyrl'', JStr ''eng_Latn''])]
              ''supported_languages''
            = Some (JArr (map JStr [''deu_Latn'', ''eng_Cyrl'', ''eng_Latn'']))"
    by simp
  have h3: "english ''Hello world'' = Some ''ENG''"
    by (simp add: english_def)
  have h4: "[''deu_Latn'', ''eng_Cyrl'', ''eng_Latn''] = [''deu_Latn''] @ ''eng_Cyrl'' # [''eng_Latn'']"
    by simp
  have h5: "prefix (lower ''ENG'') ''eng_Cyrl''"
    by (simp add: lower_ENG)
  have h6: "\<forall>x\<in>set [''deu_Latn'']. \<not> prefix (lower ''ENG'') x"
    by (simp add: lower_ENG)
  have tgt: "map_of (lang_table startup) ''German'' = Some ''deu_Latn''"
    by (simp add: startup_def LANG_2_FLORES_def)
  have post: "demo_service [languages_request]
                (translate_request ''Hello world'' (JStr ''eng_Cyrl'') ''deu_Latn'')
              = Inr (JObj [(''text'', JStr ''Hallo Welt'')])"
    by (simp add: demo_service_def translate_request_def)
  have empty: "sent startup = []"
    by (simp add: startup_def)
  from translate_source [of demo_service startup _ _ english "''Hello world''" "''ENG''"
                            "[''deu_Latn'']" "''eng_Cyrl''" "[''eng_Latn'']" "''German''",
                         OF h1 h2 h3 h4 h5 h6]
  have "translate demo_service english ''Hello world'' ''German'' startup =
          http_json demo_service (translate_request ''Hello world'' (JStr ''eng_Cyrl'') ''deu_Latn'')
            (startup\<lparr>sent := sent startup @ [languages_request]\<rparr>)"
    using tgt by simp
  then show ?thesis
    using post empty by (simp add: http_json_def)
qed




text \<open>
  C9. When the service lists its supported codes, the detector finds a language, and no
  listed code starts with the lower-cased ISO 639-3 name, \<^verbatim>\<open>translate\<close> raises
  \<^verbatim>\<open>IndexError\<close> (the \<^verbatim>\<open>[0]\<close> of an empty list): it returns no value, and has sent the GET
  only.
\<close>

theorem translate_no_match:
  assumes fetched: "net (sent st) languages_request = Inr (JObj reply)"
    and listed: "map_of reply ''supported_languages'' = Some (JArr (map JStr codes))"
    and detected: "det text = Some code"
    and none: "\<forall>x\<in>set codes. \<not> prefix (lower code) x"
  shows "translate net det text tgt_lang st =
           (Inl IndexError, st\<lparr>sent := sent st @ [languages_request]\<rparr>)"
proof -
  have "filter (prefix (lower code)) codes = []"
    using none by (simp add: filter_empty_conv)
  then show ?thesis
    using translate_listed [of net st reply codes det "text" code tgt_lang]
      fetched listed detected
    by simp
qed

theorem translate_no_match_witness:
  "translate no_english_service english ''Hello world'' ''German'' startup =
     (Inl IndexError, startup\<lparr>sent := [languages_request]\<rparr>)"
proof -
  have h1: "no_english_service (sent startup) languages_request =
              Inr (JObj [(''supported_languages'', JArr [JStr ''deu_Latn'', JStr ''fra_Latn''])])"
    by (simp add: no_english_service_def languages_request_def)
  have h2: "map_of [(''supported_languages'', JArr [JStr ''deu_Latn'', JStr ''fra_Latn''])]
              ''supported_languages''
            = Some (JArr (map JStr [''deu_Latn'', ''fra_Latn'']))"
    by simp
  have h3: "english ''Hello world'' = Some ''ENG''"
    by (simp add: english_def)
  have h4: "\<forall>x\<in>set [''deu_Latn'', ''fra_Latn'']. \<not> prefix (lower ''ENG'') x"
    by (simp add: lower_ENG)
  have empty: "sent startup = []"
    by (simp add: startup_def)
  from translate_no_match [of no_english_service startup _ _ english "''Hello world''" "''ENG''"
                              "''German''", OF h1 h2 h3 h4]
  show ?thesis
    using empty by simp
qed

section \<open>Claims about the language table\<close>

text \<open>
  C8. The table of target languages has exactly nine entries, with distinct names, and
  maps \<^verbatim>\<open>English\<close> to \<^verbatim>\<open>eng_Latn\<close>. No event changes it: in every reachable state the
  module global holds that table. \<^verbatim>\<open>translate\<close> takes its target code from the table by
  the selected name: once a source code is selected, it posts that source code with the
  table's entry for the name as \<^verbatim>\<open>tgt_lang\<close>, and where the table has no entry for the
  name it raises the \<^verbatim>\<open>KeyError\<close> of the name and posts nothing. In no run does it post
  a \<^verbatim>\<open>tgt_lang\<close> that is not the table's entry.
\<close>

theorem lang_table_fixed:
  "length LANG_2_FLORES = 9
   \<and> distinct (map fst LANG_2_FLORES)
   \<and> map_of LANG_2_FLORES ''English'' = Some ''eng_Latn''
   \<and> (reachable st \<longrightarrow>
        lang_table st = LANG_2_FLORES
        \<and> (\<forall>reply all_langs code ls src ms.
              net (sent st) languages_request = Inr reply \<and>
              py_getitem reply ''supported_languages'' = Inr all_langs \<and>
              det text = Some code \<and>
              py_iter all_langs = Inr ls \<and>
              matching_langs ls (lower code) = Inr (src # ms) \<longrightarrow>
              translate net det text tgt_lang st =
                (case map_of LANG_2_FLORES tgt_lang of
                   None \<Rightarrow>
                     (Inl (KeyError tgt_lang), st\<lparr>sent := sent st @ [languages_request]\<rparr>)
                 | Some tgt \<Rightarrow>
                     (net (sent st @ [languages_request]) (translate_request text src tgt),
                      st\<lparr>sent := sent st @ [languages_request, translate_request text src tgt]\<rparr>)))
        \<and> (sent (snd (translate net det text tgt_lang st)) = sent st @ [languages_request]
           \<or> (\<exists>src tgt. map_of LANG_2_FLORES tgt_lang = Some tgt \<and>
                 sent (snd (translate net det text tgt_lang st)) =
                   sent st @ [languages_request, translate_request text src tgt])))"
proof -
  have "length LANG_2_FLORES = 9"
    by (simp add: LANG_2_FLORES_def)
  moreover have "distinct (map fst LANG_2_FLORES)"
    by (simp add: LANG_2_FLORES_def)
  moreover have "map_of LANG_2_FLORES ''English'' = Some ''eng_Latn''"
    by (simp add: LANG_2_FLORES_def)
  moreover have "lang_table st = LANG_2_FLORES" if "reachable st"
    using reachable_table [OF that] .
  moreover have "translate net det text tgt_lang st =
                (case map_of LANG_2_FLORES tgt_lang of
                   None \<Rightarrow>
                     (Inl (KeyError tgt_lang), st\<lparr>sent := sent st @ [languages_request]\<rparr>)
                 | Some tgt \<Rightarrow>
                     (net (sent st @ [languages_request]) (translate_request text src tgt),
                      st\<lparr>sent := sent st @ [languages_request, translate_request text src tgt]\<rparr>))"
    if "reachable st" "net (sent st) languages_request = Inr reply"
      "py_getitem reply ''supported_languages'' = Inr all_langs"
      "det text = Some code" "py_iter all_langs = Inr ls"
      "matching_langs ls (lower code) = Inr (src # ms)"
    for reply all_langs code ls src ms
    using translate_selected [of net st reply all_langs det "text" code ls src ms tgt_lang]
      that reachable_table [of st]
    by (simp add: http_json_def split: option.splits)
  moreover have "sent (snd (translate net det text tgt_lang st)) = sent st @ [languages_request]
           \<or> (\<exists>src tgt. map_of LANG_2_FLORES tgt_lang = Some tgt \<and>
                 sent (snd (translate net det text tgt_lang st)) =
                   sent st @ [languages_request, translate_request text src tgt])"
    if "reachable st"
    using reachable_table [OF that] translate_sent [of net det "text" tgt_lang st] by simp
  ultimately show ?thesis by blast
qed

text \<open>
  After an upload, an English text sent with the target \<^verbatim>\<open>German\<close> is posted with
  \<^verbatim>\<open>deu_Latn\<close>, the table's entry; with a name the table does not hold, \<^verbatim>\<open>translate\<close>
  raises the \<^verbatim>\<open>KeyError\<close> of that name and posts nothing.
\<close>

theorem lang_table_fixed_witness:
  "lang_table (on_upload (one_file ''Bonjour'') ''notes.txt'' startup) = LANG_2_FLORES
   \<and> translate demo_service english ''Bonjour'' ''German''
        (on_upload (one_file ''Bonjour'') ''notes.txt'' startup)
     = (Inr (JObj [(''text'', JStr ''Hallo Welt'')]),
        (on_upload (one_file ''Bonjour'') ''notes.txt'' startup)
          \<lparr>sent := [languages_request,
                     translate_request ''Bonjour'' (JStr ''eng_Cyrl'') ''deu_Latn'']\<rparr>)
   \<and> translate demo_service english ''Bonjour'' ''Klingon''
        (on_upload (one_file ''Bonjour'') ''notes.txt'' startup)
     = (Inl (KeyError ''Klingon''),
        (on_upload (one_file ''Bonjour'') ''notes.txt'' startup)\<lparr>sent := [languages_request]\<rparr>)"
proof -
  let ?st = "on_upload (one_file ''Bonjour'') ''notes.txt'' startup"
  let ?langs = "JArr [JStr ''deu_Latn'', JStr ''eng_Cyrl'', JStr ''eng_Latn'']"
  let ?reply = "JObj [(''supported_languages'', ?langs)]"
  let ?ls = "[JStr ''deu_Latn'', JStr ''eng_Cyrl'', JStr ''eng_Latn'']"
  have r: "reachable ?st"
    by (intro reachable.upload reachable.start)
  have empty: "sent ?st = []"
    by (simp add: on_upload_def upload_file_def one_file_def startup_def split: sum.splits)
  have h1: "demo_service (sent ?st) languages_request = Inr ?reply"
    by (simp add: demo_service_def languages_request_def)
  have h2: "py_getitem ?reply ''supported_languages'' = Inr ?langs"
    by simp
  have h3: "english ''Bonjour'' = Some ''ENG''"
    by (simp add: english_def)
  have h4: "py_iter ?langs = Inr ?ls"
    by simp
  have h5: "matching_langs ?ls (lower ''ENG'') = Inr (JStr ''eng_Cyrl'' # [JStr ''eng_Latn''])"
    by (simp add: lower_ENG)
  have deu: "map_of LANG_2_FLORES ''German'' = Some ''deu_Latn''"
    and kli: "map_of LANG_2_FLORES ''Klingon'' = None"
    by (simp_all add: LANG_2_FLORES_def)
  have post: "demo_service ([] @ [languages_request])
                (translate_request ''Bonjour'' (JStr ''eng_Cyrl'') ''deu_Latn'')
              = Inr (JObj [(''text'', JStr ''Hallo Welt'')])"
    by (simp add: demo_service_def translate_request_def)
  have a: "lang_table ?st = LANG_2_FLORES"
    using lang_table_fixed [of ?st demo_service english "''Bonjour''" "''German''"] r by blast
  have "\<forall>reply all_langs code ls src ms.
              demo_service (sent ?st) languages_request = Inr reply \<and>
              py_getitem reply ''supported_languages'' = Inr all_langs \<and>
              english ''Bonjour'' = Some code \<and>
              py_iter all_langs = Inr ls \<and>
              matching_langs ls (lower code) = Inr (src # ms) \<longrightarrow>
              translate demo_service english ''Bonjour'' ''German'' ?st =
                (case map_of LANG_2_FLORES ''German'' of
                   None \<Rightarrow>
                     (Inl (KeyError ''German''), ?st\<lparr>sent := sent ?st @ [languages_request]\<rparr>)
                 | Some tgt \<Rightarrow>
                     (demo_service (sent ?st @ [languages_request])
                        (translate_request ''Bonjour'' src tgt),
                      ?st\<lparr>sent := sent ?st @ [languages_request,
                                                translate_request ''Bonjour'' src tgt]\<rparr>))"
    using lang_table_fixed [of ?st demo_service english "''Bonjour''" "''German''"] r by blast
  with h1 h2 h3 h4 h5
  have "translate demo_service english ''Bonjour'' ''German'' ?st =
                (case map_of LANG_2_FLORES ''German'' of
                   None \<Rightarrow>
                     (Inl (KeyError ''German''), ?st\<lparr>sent := sent ?st @ [languages_request]\<rparr>)
                 | Some tgt \<Rightarrow>
                     (demo_service (sent ?st @ [languages_request])
                        (translate_request ''Bonjour'' (JStr ''eng_Cyrl'') tgt),
                      ?st\<lparr>sent := sent ?st @ [languages_request,
                                translate_request ''Bonjour'' (JStr ''eng_Cyrl'') tgt]\<rparr>))"
    by blast
  then have b: "translate demo_service english ''Bonjour'' ''German'' ?st
     = (Inr (JObj [(''text'', JStr ''Hallo Welt'')]),
        ?st\<lparr>sent := [languages_request,
                     translate_request ''Bonjour'' (JStr ''eng_Cyrl'') ''deu_Latn'']\<rparr>)"
    using deu post by (simp add: empty)
  have "\<forall>reply all_langs code ls src ms.
              demo_service (sent ?st) languages_request = Inr reply \<and>
              py_getitem reply ''supported_languages'' = Inr all_langs \<and>
              english ''Bonjour'' = Some code \<and>
              py_iter all_langs = Inr ls \<and>
              matching_langs ls (lower code) = Inr (src # ms) \<longrightarrow>
              translate demo_service english ''Bonjour'' ''Klingon'' ?st =
                (case map_of LANG_2_FLORES ''Klingon'' of
                   None \<Rightarrow>
                     (Inl (KeyError ''Klingon''), ?st\<lparr>sent := sent ?st @ [languages_request]\<rparr>)
                 | Some tgt \<Rightarrow>
                     (demo_service (sent ?st @ [languages_request])
                        (translate_request ''Bonjour'' src tgt),
                      ?st\<lparr>sent := sent ?st @ [languages_request,
                                                translate_request ''Bonjour'' src tgt]\<rparr>))"
    using lang_table_fixed [of ?st demo_service english "''Bonjour''" "''Klingon''"] r by blast
  with h1 h2 h3 h4 h5
  have "translate demo_service english ''Bonjour'' ''Klingon'' ?st =
                (case map_of LANG_2_FLORES ''Klingon'' of
                   None \<Rightarrow>
                     (Inl (KeyError ''Klingon''), ?st\<lparr>sent := sent ?st @ [languages_request]\<rparr>)
                 | Some tgt \<Rightarrow>
                     (demo_service (sent ?st @ [languages_request])
                        (translate_request ''Bonjour'' (JStr ''eng_Cyrl'') tgt),
                      ?st\<lparr>sent := sent ?st @ [languages_request,
                                translate_request ''Bonjour'' (JStr ''eng_Cyrl'') tgt]\<rparr>))"
    by blast
  then have c: "translate demo_service english ''Bonjour'' ''Klingon'' ?st
     = (Inl (KeyError ''Klingon''), ?st\<lparr>sent := [languages_request]\<rparr>)"
    using kli by (simp add: empty)
  from a b c show ?thesis by blast
qed

section \<open>Claims about the upload\<close>

text \<open>
  C7 (as amended). For an uploaded file that can be opened: when its bytes are well-formed
  UTF-8, \<^verbatim>\<open>upload_file\<close> returns the whole decoded content with every line ending
  (carriage return and line feed, or a carriage return alone) read as one line feed, so
  that the value holds no carriage return and every other character of the file in its
  place; the handler replaces the content of the text box by that value, whatever the box
  held, and changes nothing else. For a file without a carriage return the text box holds
  exactly the file's content. When the bytes are not well-formed UTF-8, \<^verbatim>\<open>upload_file\<close>
  raises \<^verbatim>\<open>UnicodeDecodeError\<close> and the handler leaves the state, the text box with it,
  as it was.
\<close>

theorem upload_file_content:
  assumes "fs file = Some bytes"
  shows "(well_formed_utf8 (map of_char bytes) \<longrightarrow>
            upload_file fs file = Inr (universal_newlines bytes)
            \<and> on_upload fs file st = st\<lparr>text_box := universal_newlines bytes\<rparr>
            \<and> CR \<notin> set (universal_newlines bytes)
            \<and> filter (\<lambda>c. c \<noteq> LF) (universal_newlines bytes)
                = filter (\<lambda>c. c \<noteq> CR \<and> c \<noteq> LF) bytes
            \<and> (\<forall>xs ys. bytes = xs @ CR # LF # ys \<longrightarrow>
                  universal_newlines bytes = universal_newlines xs @ LF # universal_newlines ys)
            \<and> (\<forall>xs ys. bytes = xs @ CR # ys \<and> (\<forall>zs. ys \<noteq> LF # zs) \<longrightarrow>
                  universal_newlines bytes = universal_newlines xs @ LF # universal_newlines ys)
            \<and> (CR \<notin> set bytes \<longrightarrow> text_box (on_upload fs file st) = bytes))
         \<and> (\<not> well_formed_utf8 (map of_char bytes) \<longrightarrow>
               upload_file fs file = Inl UnicodeDecodeError \<and> on_upload fs file st = st)"
proof -
  have "upload_file fs file = Inr (universal_newlines bytes)
        \<and> on_upload fs file st = st\<lparr>text_box := universal_newlines bytes\<rparr>"
    if "well_formed_utf8 (map of_char bytes)"
    using assms that by (simp add: upload_file_def on_upload_def)
  moreover have "text_box (on_upload fs file st) = bytes"
    if "well_formed_utf8 (map of_char bytes)" "CR \<notin> set bytes"
    using assms that by (simp add: upload_file_def on_upload_def universal_newlines_plain)
  moreover have "upload_file fs file = Inl UnicodeDecodeError \<and> on_upload fs file st = st"
    if "\<not> well_formed_utf8 (map of_char bytes)"
    using assms that by (simp add: upload_file_def on_upload_def)
  moreover note universal_newlines_no_CR [of bytes] universal_newlines_others [of bytes]
  moreover have "\<forall>xs ys. bytes = xs @ CR # LF # ys \<longrightarrow>
                  universal_newlines bytes = universal_newlines xs @ LF # universal_newlines ys"
    by (simp add: universal_newlines_CRLF)
  moreover have "\<forall>xs ys. bytes = xs @ CR # ys \<and> (\<forall>zs. ys \<noteq> LF # zs) \<longrightarrow>
                  universal_newlines bytes = universal_newlines xs @ LF # universal_newlines ys"
    using universal_newlines_lone_CR by blast
  ultimately show ?thesis by blast
qed

text \<open>
  A file that holds \<^verbatim>\<open>Bonjour\<close>, uploaded over the text \<^verbatim>\<open>Hello world\<close>; a file with both
  kinds of line ending; a UTF-16 file, which leaves \<^verbatim>\<open>Hello world\<close> in the box.
\<close>

theorem upload_file_content_witness:
  "upload_file (one_file ''Bonjour'') ''notes.txt'' = Inr ''Bonjour''
   \<and> text_box (on_upload (one_file ''Bonjour'') ''notes.txt''
                 (startup\<lparr>text_box := ''Hello world''\<rparr>)) = ''Bonjour''
   \<and> upload_file (one_file [CHR ''a'', CR, LF, CHR ''b'', CR, CHR ''c'']) ''notes.txt''
       = Inr [CHR ''a'', LF, CHR ''b'', LF, CHR ''c'']
   \<and> upload_file (one_file [CHR 0xFF, CHR 0xFE, CHR ''B'', CHR 0x00]) ''notes.txt''
       = Inl UnicodeDecodeError
   \<and> on_upload (one_file [CHR 0xFF, CHR 0xFE, CHR ''B'', CHR 0x00]) ''notes.txt''
        (startup\<lparr>text_box := ''Hello world''\<rparr>) = startup\<lparr>text_box := ''Hello world''\<rparr>"
proof -
  let ?st = "startup\<lparr>text_box := ''Hello world''\<rparr>"
  let ?crlf = "[CHR ''a'', CR, LF, CHR ''b'', CR, CHR ''c'']"
  let ?utf16 = "[CHR 0xFF, CHR 0xFE, CHR ''B'', CHR 0x00]"
  have f1: "one_file ''Bonjour'' ''notes.txt'' = Some ''Bonjour''"
    and f2: "one_file ?crlf ''notes.txt'' = Some ?crlf"
    and f3: "one_file ?utf16 ''notes.txt'' = Some ?utf16"
    by (simp_all add: one_file_def)
  have w1: "well_formed_utf8 (map of_char ''Bonjour'')"
    by simp
  have w2: "well_formed_utf8 (map of_char ?crlf)"
    by (simp add: CR_def LF_def)
  have w3: "\<not> well_formed_utf8 (map of_char ?utf16)"
    by simp
  have n1: "CR \<notin> set ''Bonjour''"
    by (simp add: CR_def)
  have u1: "universal_newlines ''Bonjour'' = ''Bonjour''"
    by (simp add: CR_def)
  have u2: "universal_newlines ?crlf = [CHR ''a'', LF, CHR ''b'', LF, CHR ''c'']"
    by (simp add: CR_def LF_def)
  from upload_file_content [of "one_file ''Bonjour''" "''notes.txt''" "''Bonjour''" ?st, OF f1] w1 n1
  have a: "upload_file (one_file ''Bonjour'') ''notes.txt'' = Inr (universal_newlines ''Bonjour'')"
    and b: "text_box (on_upload (one_file ''Bonjour'') ''notes.txt'' ?st) = ''Bonjour''"
    by blast+
  from upload_file_content [of "one_file ?crlf" "''notes.txt''" ?crlf ?st, OF f2] w2
  have c: "upload_file (one_file ?crlf) ''notes.txt'' = Inr (universal_newlines ?crlf)"
    by blast
  from upload_file_content [of "one_file ?utf16" "''notes.txt''" ?utf16 ?st, OF f3] w3
  have d: "upload_file (one_file ?utf16) ''notes.txt'' = Inl UnicodeDecodeError"
    and e: "on_upload (one_file ?utf16) ''notes.txt'' ?st = ?st"
    by blast+
  from a b c d e u1 u2 show ?thesis by simp
qed

text \<open>
  The claim without the amendment fails on a file with a Windows line ending, which is
  not returned as it is, and on a Latin-1 file, which is not returned at all: the text
  box keeps \<^verbatim>\<open>Hello world\<close>.
\<close>

theorem upload_file_content_counterexample:
  "upload_file (one_file [CHR ''a'', CR, LF, CHR ''b'']) ''notes.txt'' = Inr [CHR ''a'', LF, CHR ''b'']
   \<and> upload_file (one_file [CHR ''c'', CHR ''a'', CHR ''f'', CHR 0xE9]) ''notes.txt''
       = Inl UnicodeDecodeError
   \<and> text_box (on_upload (one_file [CHR ''c'', CHR ''a'', CHR ''f'', CHR 0xE9]) ''notes.txt''
                 (startup\<lparr>text_box := ''Hello world''\<rparr>)) = ''Hello world''"
  by (simp add: upload_file_def on_upload_def one_file_def CR_def LF_def)

end
